theory Spec2Isabelle
  imports Main
begin

section \<open>Python strings\<close>

text \<open>
  Titles and answers are Python \<open>str\<close> values, modelled as \<open>string\<close>. The separator
  \<open>/\<close> is ASCII, so splitting and joining act the same on bytes and on code points.
\<close>

text \<open>\<open>s.split(c)\<close> for a one-character separator: never empty, \<open>"".split("/") == [""]\<close>.\<close>

fun split_sep :: "char \<Rightarrow> string \<Rightarrow> string list" where
  "split_sep c [] = [[]]"
| "split_sep c (x # xs) =
     (if x = c then [] # split_sep c xs
      else (case split_sep c xs of [] \<Rightarrow> [[x]] | p # ps \<Rightarrow> (x # p) # ps))"

text \<open>\<open>sep.join(parts)\<close>.\<close>

fun join_sep :: "string \<Rightarrow> string list \<Rightarrow> string" where
  "join_sep sep [] = []"
| "join_sep sep [p] = p"
| "join_sep sep (p # q # ps) = p @ sep @ join_sep sep (q # ps)"

definition split_title :: "string \<Rightarrow> string list" where
  "split_title t = split_sep (CHR ''/'') t"

definition join_title :: "string list \<Rightarrow> string" where
  "join_title ps = join_sep ''/'' ps"

text \<open>\<open>s.startswith(p)\<close> and \<open>p in s\<close>.\<close>

definition startswith :: "string \<Rightarrow> string \<Rightarrow> bool" where
  "startswith s p = (take (length p) s = p)"

fun contains :: "string \<Rightarrow> string \<Rightarrow> bool" where
  "contains [] p = (p = [])"
| "contains (x # xs) p = (startswith (x # xs) p \<or> contains xs p)"

text \<open>
  \<open>s.strip()\<close> and \<open>s.lower()\<close>, on the ASCII range: the six ASCII white-space characters
  are stripped and the letters \<open>A\<close> to \<open>Z\<close> are lowered; every other character is kept.
\<close>

definition is_space :: "char \<Rightarrow> bool" where
  "is_space c = (c \<in> set [CHR 0x20, CHR 0x09, CHR 0x0A, CHR 0x0B, CHR 0x0C, CHR 0x0D])"

definition strip :: "string \<Rightarrow> string" where
  "strip s = rev (dropWhile is_space (rev (dropWhile is_space s)))"

definition lower_char :: "char \<Rightarrow> char" where
  "lower_char c =
     (case map_of (zip ''ABCDEFGHIJKLMNOPQRSTUVWXYZ'' ''abcdefghijklmnopqrstuvwxyz'') c of
        Some d \<Rightarrow> d | None \<Rightarrow> c)"

definition lower :: "string \<Rightarrow> string" where
  "lower s = map lower_char s"

text \<open>\<open>s.isdigit()\<close> and \<open>int(s)\<close> on ASCII digits.\<close>

definition digit_val :: "char \<Rightarrow> nat option" where
  "digit_val c = map_of (zip ''0123456789'' [0, 1, 2, 3, 4, 5, 6, 7, 8, 9]) c"

definition isdigit :: "string \<Rightarrow> bool" where
  "isdigit s = (s \<noteq> [] \<and> list_all (\<lambda>c. digit_val c \<noteq> None) s)"

definition int_of :: "string \<Rightarrow> nat" where
  "int_of s = foldl (\<lambda>n c. 10 * n + (case digit_val c of Some d \<Rightarrow> d | None \<Rightarrow> 0)) 0 s"

section \<open>Data model\<close>

type_synonym qid = string

text \<open>
  A claim of property P1433 as pywikibot holds it: \<open>snak\<close> is its identity in the store,
  \<open>ctarget\<close> is \<open>getTarget()\<close> (\<open>Some q\<close> for an \<open>ItemPage\<close> with id \<open>q\<close>, \<open>None\<close> for a
  target that is no item), \<open>qualifiers\<close> is the dictionary from a qualifier property to
  the targets of its qualifiers, in order.
\<close>

record claim =
  snak :: nat
  ctarget :: "qid option"
  qualifiers :: "(string \<times> qid option list) list"

text \<open>
  The wiki as the scripts read it: \<open>page_exists t\<close> is \<open>Page(site, t).exists()\<close>,
  \<open>redirect_of t\<close> is \<open>Some\<close> of the title of \<open>getRedirectTarget()\<close> when
  \<open>isRedirectPage()\<close> holds, \<open>item_of t\<close> is the id of \<open>ItemPage.fromPage(Page(site, t))\<close>
  and \<open>None\<close> when that call raises, \<open>allpages\<close> is \<open>site.allpages(namespace=0)\<close>.
\<close>

record site =
  page_exists :: "string \<Rightarrow> bool"
  redirect_of :: "string \<Rightarrow> string option"
  item_of :: "string \<Rightarrow> qid option"
  allpages :: "string list"

text \<open>
  A page: its title and the values the two parameter extractors return for the
  parameters of the navigation template (\<open>None\<close> when the regular expression does not
  match; the values are stripped by the extractor).
\<close>

record page =
  ptitle :: string
  titul :: "string option"
  predchozi :: "string option"
  dalsi :: "string option"

datatype error = EOFError | UnboundLocalError | IndexError | AttributeError

text \<open>
  Everything a run shows or does, in order: \<open>Print\<close> for each output statement (the
  source's message in ASCII, without its pictograms), \<open>Prompt\<close> for each call of
  \<open>input\<close>, \<open>OpenBrowser\<close> for \<open>webbrowser.open\<close>, and one constructor for each call
  that changes the store, with its edit summary.
\<close>

datatype event =
    Print string
  | Prompt string
  | OpenBrowser qid
  | AddClaim qid qid string
  | ChangeTarget qid nat qid string
  | RemoveClaim qid nat string
  | AddQualifier nat string qid string

text \<open>
  The world outside the scripts: the lines the operator will type, the P1433 claims of
  every item in the knowledge base (\<open>[]\<close> when the item has none), the next free claim
  identity, the events so far, and the module-level flag \<open>always_yes\<close> of the harvest
  script.
\<close>

record world =
  stdin :: "string list"
  kb :: "qid \<Rightarrow> claim list"
  next_snak :: nat
  trace :: "event list"
  always_yes :: bool

definition emit :: "event \<Rightarrow> world \<Rightarrow> world" where
  "emit e w = w\<lparr>trace := trace w @ [e]\<rparr>"

definition is_mutation :: "event \<Rightarrow> bool" where
  "is_mutation e = (case e of AddClaim _ _ _ \<Rightarrow> True | ChangeTarget _ _ _ _ \<Rightarrow> True
     | RemoveClaim _ _ _ \<Rightarrow> True | AddQualifier _ _ _ _ \<Rightarrow> True | _ \<Rightarrow> False)"

definition is_prompt :: "event \<Rightarrow> bool" where
  "is_prompt e = (case e of Prompt _ \<Rightarrow> True | _ \<Rightarrow> False)"

definition mutations :: "world \<Rightarrow> event list" where
  "mutations w = filter is_mutation (trace w)"

definition prompts :: "world \<Rightarrow> event list" where
  "prompts w = filter is_prompt (trace w)"

text \<open>\<open>input(q)\<close>: shows the prompt and reads one line; end of input raises.\<close>

definition read_input :: "string \<Rightarrow> world \<Rightarrow> (error + string) \<times> world" where
  "read_input q w =
     (case stdin w of
        [] \<Rightarrow> (Inl EOFError, emit (Prompt q) w)
      | x # xs \<Rightarrow> (Inr x, (emit (Prompt q) w)\<lparr>stdin := xs\<rparr>))"

subsection \<open>The store's operations\<close>

text \<open>
  \<open>item.addClaim\<close> appends a new claim to the item; \<open>claim.changeTarget\<close> replaces the
  target of the claim with that identity; \<open>item.removeClaims\<close> takes the claim off the
  item in the store (the Python list the caller holds is not changed);
  \<open>claim.addQualifier\<close> appends a qualifier to the claim with that identity, when the
  item still carries it.
\<close>

definition add_claim :: "qid \<Rightarrow> qid \<Rightarrow> string \<Rightarrow> world \<Rightarrow> world" where
  "add_claim it tgt sm w =
     w\<lparr>kb := (kb w)(it := kb w it @ [\<lparr>snak = next_snak w, ctarget = Some tgt, qualifiers = []\<rparr>]),
       next_snak := Suc (next_snak w),
       trace := trace w @ [AddClaim it tgt sm]\<rparr>"

definition change_target :: "qid \<Rightarrow> nat \<Rightarrow> qid \<Rightarrow> string \<Rightarrow> world \<Rightarrow> world" where
  "change_target it sn tgt sm w =
     w\<lparr>kb := (kb w)(it := map (\<lambda>c. if snak c = sn then c\<lparr>ctarget := Some tgt\<rparr> else c) (kb w it)),
       trace := trace w @ [ChangeTarget it sn tgt sm]\<rparr>"

definition remove_claim :: "qid \<Rightarrow> nat \<Rightarrow> string \<Rightarrow> world \<Rightarrow> world" where
  "remove_claim it sn sm w =
     w\<lparr>kb := (kb w)(it := filter (\<lambda>c. snak c \<noteq> sn) (kb w it)),
       trace := trace w @ [RemoveClaim it sn sm]\<rparr>"

definition quals_get :: "claim \<Rightarrow> string \<Rightarrow> qid option list" where
  "quals_get c prop = (case map_of (qualifiers c) prop of None \<Rightarrow> [] | Some l \<Rightarrow> l)"

definition with_qualifier :: "string \<Rightarrow> qid \<Rightarrow> claim \<Rightarrow> claim" where
  "with_qualifier prop tgt c =
     c\<lparr>qualifiers :=
         (if prop \<in> fst ` set (qualifiers c)
          then map (\<lambda>(k, l). if k = prop then (k, l @ [Some tgt]) else (k, l)) (qualifiers c)
          else qualifiers c @ [(prop, [Some tgt])])\<rparr>"

definition add_qualifier :: "qid \<Rightarrow> nat \<Rightarrow> string \<Rightarrow> qid \<Rightarrow> string \<Rightarrow> world \<Rightarrow> world" where
  "add_qualifier it sn prop tgt sm w =
     w\<lparr>kb := (kb w)(it := map (\<lambda>c. if snak c = sn then with_qualifier prop tgt c else c) (kb w it)),
       trace := trace w @ [AddQualifier sn prop tgt sm]\<rparr>"

section \<open>Messages\<close>

text \<open>
  The texts of the output statements (\<open>msg\<close>), of the questions (\<open>ask\<close>) and of the edit
  summaries (\<open>sum\<close>), as the source builds them, in ASCII.
\<close>

definition msg_header :: "string \<Rightarrow> string" where
  "msg_header t = ''== '' @ t @ '' ==''"

definition msg_no_item :: "string" where
  "msg_no_item = ''Stranka nema polozku Wikidat.''"

definition msg_no_titul :: "string" where
  "msg_no_titul = ''Sablona NavigacePaP nema TITUL.''"

definition msg_no_parent :: "string" where
  "msg_no_parent = ''Nelze odhadnout nazev - stranka nema nadrazenou uroven.''"

definition msg_try_estimate :: "string \<Rightarrow> string" where
  "msg_try_estimate cand = ''Zkousim odhadovany titul: '' @ cand"

definition msg_found_estimate :: "string \<Rightarrow> string \<Rightarrow> string" where
  "msg_found_estimate t q = ''Nalezeno: '' @ t @ '' ('' @ q @ '')''"

definition ask_add_estimate :: "string \<Rightarrow> string \<Rightarrow> string" where
  "ask_add_estimate q t = ''Pridat publikovano v '' @ q @ '' ('' @ t @ '')?''"

definition sum_hierarchy_estimate :: "string" where
  "sum_hierarchy_estimate = ''Doplneno publikovano v (odhad hierarchie bez TITUL)''"

definition msg_no_ancestor_item :: "string" where
  "msg_no_ancestor_item = ''Zadna nadrazena uroven nema polozku Wikidat.''"

definition msg_expected_not_found :: "string \<Rightarrow> string" where
  "msg_expected_not_found t = ''Nenalezena polozka pro ocekavane dilo: '' @ t"

definition msg_try_full :: "string \<Rightarrow> string" where
  "msg_try_full t = ''Zkousim odhadnuty uplny titul: '' @ t"

definition msg_found_full :: "string \<Rightarrow> string" where
  "msg_found_full q = ''Nalezeno jako '' @ q"

definition msg_already_correct :: "string \<Rightarrow> string" where
  "msg_already_correct q = ''Polozka jiz ma spravne publikovano v ('' @ q @ '') - bez zmeny.''"

definition ask_use_full :: "string \<Rightarrow> string" where
  "ask_use_full t = ''Pouzit '' @ t @ ''?''"

definition sum_multi_level :: "string" where
  "sum_multi_level = ''Oprava publikovano v (NavigacePaP, odhad vicestupnoveho nazvu)''"

definition msg_full_no_item :: "string \<Rightarrow> string" where
  "msg_full_no_item t = t @ '' nema polozku Wikidat.''"

definition msg_candidates :: "string" where
  "msg_candidates = ''Mozne kandidaty:''"

definition msg_candidate :: "string \<Rightarrow> string" where
  "msg_candidate t = ''kandidat: '' @ t"

definition ask_choice :: "string" where
  "ask_choice = ''Zadej cislo spravneho titulu (nebo Enter pro preskocit): ''"

definition ask_use_instead :: "string \<Rightarrow> string \<Rightarrow> string \<Rightarrow> string" where
  "ask_use_instead t q b = ''Pouzit '' @ t @ '' ('' @ q @ '') misto '' @ b @ ''?''"

definition sum_similar_title :: "string" where
  "sum_similar_title = ''Oprava publikovano v (NavigacePaP, nalezeno podobne dilo)''"

definition msg_chosen_no_item :: "string" where
  "msg_chosen_no_item = ''Zvolena stranka nema polozku Wikidat.''"

definition msg_no_similar :: "string" where
  "msg_no_similar = ''Nenasel jsem zadne podobne nazvy.''"

definition msg_missing :: "string \<Rightarrow> string" where
  "msg_missing q = ''Chybi publikovano v - melo by byt '' @ q"

definition ask_add :: "string" where
  "ask_add = ''Pridat?''"

definition sum_added :: "string" where
  "sum_added = ''Doplneno publikovano v (NavigacePaP)''"

definition msg_matches :: "string \<Rightarrow> string" where
  "msg_matches q = ''P1433 odpovida ('' @ q @ '')''"

definition msg_mismatch :: "string \<Rightarrow> string \<Rightarrow> string" where
  "msg_mismatch cur exp = ''Nesoulad: aktualni '' @ cur @ '', ocekavane '' @ exp"

definition ask_replace :: "string" where
  "ask_replace = ''Nahradit?''"

definition sum_corrected :: "string" where
  "sum_corrected = ''Oprava publikovano v (NavigacePaP)''"

definition msg_no_navigation :: "string" where
  "msg_no_navigation = ''(zadna NavigacePaP nalezena nebo chybi predchozi/nasledujici cast)''"

definition msg_no_p1433 :: "string" where
  "msg_no_p1433 = ''Zadne publikovano v (P1433) nenalezeno - preskoceno.''"

definition msg_distinct :: "string" where
  "msg_distinct = ''Ruzne hodnoty publikovano v:''"

definition msg_target_line :: "string \<Rightarrow> string" where
  "msg_target_line q = ''- '' @ q"

definition ask_open :: "string" where
  "ask_open = ''Otevrit polozku ve webovem prohlizeci? [y/N]: ''"

definition msg_same_target :: "string \<Rightarrow> string" where
  "msg_same_target q = ''Vice P1433 se stejnym cilem ('' @ q @ '').''"

definition msg_removal_candidate :: "string" where
  "msg_removal_candidate = ''- Kandidat na odstraneni (bez kvalifikatoru).''"

definition ask_remove :: "string" where
  "ask_remove = ''Odstranit nadbytecne bez kvalifikatoru? [y/n/a]: ''"

definition sum_duplicate :: "string" where
  "sum_duplicate = ''Odstraneno duplicitni publikovano v bez kvalifikatoru''"

definition msg_removed :: "string" where
  "msg_removed = ''Duplicitni tvrzeni odstranena.''"

definition msg_already_qualified :: "string" where
  "msg_already_qualified = ''P1433 jiz obsahuje vymezeni P155/P156 - preskoceno.''"

definition msg_published_in :: "string \<Rightarrow> string" where
  "msg_published_in q = ''Publikovano v: '' @ q"

definition msg_base_title :: "string \<Rightarrow> string" where
  "msg_base_title t = ''Urcen zakladni nazev: '' @ t"

definition msg_prev_not_found :: "string \<Rightarrow> string" where
  "msg_prev_not_found t = ''Nenalezena polozka pro predchozi: '' @ t"

definition msg_next_not_found :: "string \<Rightarrow> string" where
  "msg_next_not_found t = ''Nenalezena polozka pro nasledujici: '' @ t"

definition msg_adding_qualifier :: "string \<Rightarrow> string \<Rightarrow> string" where
  "msg_adding_qualifier prop q = ''Pridavam '' @ prop @ '' -> '' @ q @ '' jako kvalifikator k P1433''"

definition sum_qualifier :: "string \<Rightarrow> string" where
  "sum_qualifier prop = ''Adding qualifier '' @ prop @ '' for P1433 (NavigacePaP)''"

section \<open>check_P1433.py\<close>

definition get_item_for_page :: "site \<Rightarrow> string \<Rightarrow> qid option" where
  "get_item_for_page s t = item_of s t"

text \<open>
  The loop of \<open>guess_base_title\<close> over \<open>reversed(candidates)\<close>: it either returns a title
  from inside the loop or runs to the end with \<open>best_existing\<close>.
\<close>

datatype walk_result = Returned string | Exhausted "string option"

fun guess_walk :: "site \<Rightarrow> string list \<Rightarrow> string option \<Rightarrow> walk_result" where
  "guess_walk s [] best_existing = Exhausted best_existing"
| "guess_walk s (candidate # rest) best_existing =
     (if \<not> page_exists s candidate then guess_walk s rest best_existing
      else
        let t = (case redirect_of s candidate of Some r \<Rightarrow> r | None \<Rightarrow> candidate) in
        (case item_of s t of
           Some _ \<Rightarrow> Returned t
         | None \<Rightarrow> guess_walk s rest (Some t)))"

text \<open>
  \<open>guess_base_title(page, title_param)\<close>. The second argument is in the signature and is
  not read by the body.
\<close>

definition guess_base_title :: "site \<Rightarrow> string \<Rightarrow> string option \<Rightarrow> string" where
  "guess_base_title s title title_param =
     (let parts = split_title title in
      if length parts = 1 then hd parts
      else
        let candidates = map (\<lambda>i. join_title (take i parts)) [1..<length parts] in
        (case guess_walk s (rev candidates) None of
           Returned t \<Rightarrow> t
         | Exhausted best_existing \<Rightarrow>
             (case best_existing of
                None \<Rightarrow> hd parts
              | Some b \<Rightarrow> if b = [] then hd parts else b)))"

text \<open>\<open>get_publication_item(item)\<close>: the target of the first P1433 claim, if it is an item.\<close>

definition get_publication_item :: "world \<Rightarrow> qid \<Rightarrow> qid option" where
  "get_publication_item w it = (case kb w it of [] \<Rightarrow> None | c # _ \<Rightarrow> ctarget c)"

text \<open>
  \<open>confirm(question)\<close>: asks until the stripped, lowered answer is one of \<open>y\<close>, \<open>n\<close>,
  \<open>a\<close>. \<open>confirm_on\<close> runs the loop over the lines to come and returns the answer (or the
  end of input), the lines left and the number of times the question was shown.
\<close>

fun confirm_on :: "string list \<Rightarrow> (error + string) \<times> string list \<times> nat" where
  "confirm_on [] = (Inl EOFError, [], 1)"
| "confirm_on (x # xs) =
     (let ans = lower (strip x) in
      if ans \<in> {''y'', ''n'', ''a''} then (Inr ans, xs, 1)
      else (case confirm_on xs of (r, rest, n) \<Rightarrow> (r, rest, Suc n)))"

definition confirm :: "string \<Rightarrow> world \<Rightarrow> (error + string) \<times> world" where
  "confirm q w =
     (case confirm_on (stdin w) of
        (r, rest, n) \<Rightarrow>
          (r, w\<lparr>stdin := rest, trace := trace w @ replicate n (Prompt (q @ '' [y]es / [n]o / [a]ll > ''))\<rparr>))"

text \<open>
  The gate every edit of \<open>process_page\<close> goes through:
  \<^verbatim>\<open>ans = "y" if all_yes else confirm(q)\<close>, then the edit when the answer is \<open>y\<close> or \<open>a\<close>,
  then \<^verbatim>\<open>all_yes = True\<close> when it is \<open>a\<close>, then \<^verbatim>\<open>return all_yes\<close>.
\<close>

definition gated :: "bool \<Rightarrow> string \<Rightarrow> (world \<Rightarrow> world) \<Rightarrow> world \<Rightarrow> (error + bool) \<times> world" where
  "gated all_yes q edit w =
     (case (if all_yes then (Inr ''y'', w) else confirm q w) of
        (Inl e, w1) \<Rightarrow> (Inl e, w1)
      | (Inr ans, w1) \<Rightarrow>
          if ans \<in> {''y'', ''a''}
          then (Inr (if ans = ''a'' then True else all_yes), edit w1)
          else (Inr all_yes, w1))"

text \<open>The branch for a template without TITUL: the loop over the ancestors, nearest first.\<close>

fun estimate_loop :: "site \<Rightarrow> qid \<Rightarrow> bool \<Rightarrow> string list \<Rightarrow> world \<Rightarrow> (error + bool) \<times> world" where
  "estimate_loop s it all_yes [] w =
     (Inr all_yes, emit (Print msg_no_ancestor_item) w)"
| "estimate_loop s it all_yes (cand # rest) w =
     (let w1 = emit (Print (msg_try_estimate cand)) w in
      if \<not> page_exists s cand then estimate_loop s it all_yes rest w1
      else
        let cand_title = (case redirect_of s cand of Some r \<Rightarrow> r | None \<Rightarrow> cand) in
        (case get_item_for_page s cand_title of
           None \<Rightarrow> estimate_loop s it all_yes rest w1
         | Some cand_item \<Rightarrow>
             gated all_yes (ask_add_estimate cand_item cand_title)
               (add_claim it cand_item sum_hierarchy_estimate)
               (emit (Print (msg_found_estimate cand_title cand_item)) w1)))"

definition ancestors_nearest_first :: "string list \<Rightarrow> string list" where
  "ancestors_nearest_first parts = map (\<lambda>i. join_title (take i parts)) (rev [1..<length parts])"

text \<open>
  The local variable \<open>cand_item\<close> is assigned only inside the loop of the branch without
  TITUL, which always returns. On the path with TITUL it is unbound, and reading an
  unbound local raises \<open>UnboundLocalError\<close>.
\<close>

definition cand_item_with_titul :: "qid option" where
  "cand_item_with_titul = None"

definition read_local :: "'a option \<Rightarrow> error + 'a" where
  "read_local v = (case v of None \<Rightarrow> Inl UnboundLocalError | Some x \<Rightarrow> Inr x)"

text \<open>
  The multi-level guess. \<open>None\<close> means that control falls through to the search for
  similar titles; \<open>Some r\<close> is a return from \<open>process_page\<close>.
\<close>

definition multi_level :: "site \<Rightarrow> page \<Rightarrow> qid \<Rightarrow> string \<Rightarrow> bool \<Rightarrow> world \<Rightarrow> (error + bool) option \<times> world" where
  "multi_level s pg it base_title all_yes w =
     (let parts = split_title (ptitle pg) in
      if length parts > 2 then
        let prefix = join_title (butlast parts) in
        if \<not> startswith base_title prefix then
          let candidate_full = prefix @ ''/'' @ base_title;
              w1 = emit (Print (msg_try_full candidate_full)) w in
          (case get_item_for_page s candidate_full of
             Some candidate_item \<Rightarrow>
               let w2 = emit (Print (msg_found_full candidate_item)) w1;
                   proceed = (case gated all_yes (ask_use_full candidate_full)
                                     (add_claim it candidate_item
                                        sum_multi_level) w2 of
                                (r, w3) \<Rightarrow> (Some r, w3)) in
               (case get_publication_item w2 it of
                  None \<Rightarrow> proceed
                | Some current_item \<Rightarrow>
                    (case read_local cand_item_with_titul of
                       Inl e \<Rightarrow> (Some (Inl e), w2)
                     | Inr cand_item \<Rightarrow>
                         if current_item = cand_item
                         then (Some (Inr all_yes),
                               emit (Print (msg_already_correct current_item)) w2)
                         else proceed))
           | None \<Rightarrow> (None, emit (Print (msg_full_no_item candidate_full)) w1))
        else (None, w)
      else (None, w))"

text \<open>The search for similar top-level titles, at most five, and the operator's choice.\<close>

text \<open>The numbered list of candidates (the running number is left out of the message).\<close>

fun print_candidates :: "string list \<Rightarrow> world \<Rightarrow> world" where
  "print_candidates [] w = w"
| "print_candidates (c # cs) w = print_candidates cs (emit (Print (msg_candidate c)) w)"

definition similar_titles :: "site \<Rightarrow> qid \<Rightarrow> string \<Rightarrow> bool \<Rightarrow> world \<Rightarrow> (error + bool) \<times> world" where
  "similar_titles s it base_title all_yes w =
     (let search_title = lower base_title;
          alt_candidates =
            take 5 (filter (\<lambda>p. contains (lower p) search_title \<and> CHR ''/'' \<notin> set p) (allpages s)) in
      if alt_candidates \<noteq> [] then
        (case read_input ask_choice
                (print_candidates alt_candidates (emit (Print msg_candidates) w)) of
           (Inl e, w1) \<Rightarrow> (Inl e, w1)
         | (Inr line, w1) \<Rightarrow>
             let choice = strip line in
             if isdigit choice \<and> 1 \<le> int_of choice \<and> int_of choice \<le> length alt_candidates then
               let chosen = alt_candidates ! (int_of choice - 1) in
               (case get_item_for_page s chosen of
                  Some expected_item \<Rightarrow>
                    gated all_yes (ask_use_instead chosen expected_item base_title)
                      (add_claim it expected_item sum_similar_title) w1
                | None \<Rightarrow> (Inr all_yes, emit (Print msg_chosen_no_item) w1))
             else (Inr all_yes, w1))
      else (Inr all_yes, emit (Print msg_no_similar) w))"

text \<open>The comparison of the expected item with the first P1433 claim of the page's item.\<close>

definition reconcile :: "qid \<Rightarrow> qid \<Rightarrow> bool \<Rightarrow> world \<Rightarrow> (error + bool) \<times> world" where
  "reconcile it expected_item all_yes w =
     (case get_publication_item w it of
        None \<Rightarrow>
          gated all_yes ask_add (add_claim it expected_item sum_added)
            (emit (Print (msg_missing expected_item)) w)
      | Some current_item \<Rightarrow>
          if current_item = expected_item
          then (Inr all_yes, emit (Print (msg_matches current_item)) w)
          else
            gated all_yes ask_replace
              (\<lambda>w'. case kb w' it of
                       [] \<Rightarrow> w'
                     | c # _ \<Rightarrow> change_target it (snak c) expected_item sum_corrected w')
              (emit (Print (msg_mismatch current_item expected_item)) w))"

text \<open>\<open>process_page(page, repo, all_yes)\<close> of check_P1433.py.\<close>

definition process_page :: "site \<Rightarrow> page \<Rightarrow> bool \<Rightarrow> world \<Rightarrow> (error + bool) \<times> world" where
  "process_page s pg all_yes w0 =
     (let w = emit (Print (msg_header (ptitle pg))) w0 in
      case item_of s (ptitle pg) of
        None \<Rightarrow> (Inr all_yes, emit (Print msg_no_item) w)
      | Some it \<Rightarrow>
          let title_param = titul pg in
          if title_param = None \<or> title_param = Some [] then
            let w1 = emit (Print msg_no_titul) w;
                parts = split_title (ptitle pg) in
            if length parts \<le> 1
            then (Inr all_yes,
                  emit (Print msg_no_parent) w1)
            else estimate_loop s it all_yes (ancestors_nearest_first parts) w1
          else
            let base_title = guess_base_title s (ptitle pg) title_param in
            (case get_item_for_page s base_title of
               None \<Rightarrow>
                 let w1 = emit (Print (msg_expected_not_found base_title)) w in
                 (case multi_level s pg it base_title all_yes w1 of
                    (Some r, w2) \<Rightarrow> (r, w2)
                  | (None, w2) \<Rightarrow> similar_titles s it base_title all_yes w2)
             | Some expected_item \<Rightarrow> reconcile it expected_item all_yes w))"

text \<open>The loop of \<open>main\<close>: pages that do not exist or are redirects are skipped.\<close>

fun check_loop :: "site \<Rightarrow> page list \<Rightarrow> bool \<Rightarrow> world \<Rightarrow> (error + bool) \<times> world" where
  "check_loop s [] all_yes w = (Inr all_yes, w)"
| "check_loop s (pg # pgs) all_yes w =
     (if \<not> page_exists s (ptitle pg) \<or> redirect_of s (ptitle pg) \<noteq> None
      then check_loop s pgs all_yes w
      else (case process_page s pg all_yes w of
              (Inl e, w1) \<Rightarrow> (Inl e, w1)
            | (Inr all_yes1, w1) \<Rightarrow> check_loop s pgs all_yes1 w1))"

definition check_main :: "site \<Rightarrow> page list \<Rightarrow> world \<Rightarrow> (error + bool) \<times> world" where
  "check_main s pgs w = check_loop s pgs False w"

section \<open>harvest_pap1.py\<close>

definition get_p1433_claims :: "world \<Rightarrow> qid \<Rightarrow> claim list" where
  "get_p1433_claims w it = kb w it"

text \<open>\<open>has_qualifiers(claim)\<close> with its default \<open>("P155", "P156")\<close>.\<close>

definition has_qualifiers :: "claim \<Rightarrow> bool" where
  "has_qualifiers c = list_ex (\<lambda>q. quals_get c q \<noteq> []) [''P155'', ''P156'']"

text \<open>
  \<open>add_statement_with_qualifier(repo, item, prop, target_item, journal_claim)\<close>. The
  Python claim object is updated by \<open>addQualifier\<close>; the model returns it.
\<close>

definition add_statement_with_qualifier ::
  "qid \<Rightarrow> string \<Rightarrow> qid option \<Rightarrow> claim option \<Rightarrow> world \<Rightarrow> claim option \<times> world" where
  "add_statement_with_qualifier it prop target_item journal_claim w =
     (case target_item of
        None \<Rightarrow> (journal_claim, w)
      | Some t \<Rightarrow>
          (case journal_claim of
             None \<Rightarrow> (journal_claim, w)
           | Some jc \<Rightarrow>
               if list_ex (\<lambda>qual. qual = Some t) (quals_get jc prop) then (Some jc, w)
               else
                 (Some (with_qualifier prop t jc),
                  emit (Print (msg_adding_qualifier prop t))
                    (add_qualifier it (snak jc) prop t
                       (sum_qualifier prop) w))))"

text \<open>
  \<open>unique_targets\<close>: the ids of the targets that are items, without repetition. Python
  builds the list from a set, in no fixed order; the code reads its length, and its
  first element only when it has at most one.
\<close>

definition unique_targets :: "claim list \<Rightarrow> qid list" where
  "unique_targets claims = remdups (List.map_filter ctarget claims)"

text \<open>The report of distinct targets: \<open>target.id\<close> raises on a target that is no item.\<close>

fun print_targets :: "claim list \<Rightarrow> world \<Rightarrow> (error + unit) \<times> world" where
  "print_targets [] w = (Inr (), w)"
| "print_targets (c # cs) w =
     (case ctarget c of
        None \<Rightarrow> (Inl AttributeError, w)
      | Some q \<Rightarrow> print_targets cs (emit (Print (msg_target_line q)) w))"

text \<open>The dialogue about claims without qualifiers, and their removal.\<close>

definition dedup_dialogue :: "qid \<Rightarrow> qid \<Rightarrow> claim list \<Rightarrow> world \<Rightarrow> (error + unit) \<times> world" where
  "dedup_dialogue it target_qid no_qual w =
     (case read_input ask_remove
             (foldl (\<lambda>w' c. emit (Print msg_removal_candidate) w')
                (emit (Print (msg_same_target target_qid)) w) no_qual) of
        (Inl e, w1) \<Rightarrow> (Inl e, w1)
      | (Inr line, w1) \<Rightarrow>
          let ans = lower line in
          if ans \<in> {''y'', ''a''} then
            let w2 = emit (Print msg_removed)
                       (foldl (\<lambda>w' c. remove_claim it (snak c)
                                  sum_duplicate w') w1 no_qual) in
            (Inr (), if ans = ''a'' then w2\<lparr>always_yes := True\<rparr> else w2)
          else (Inr (), w1))"

text \<open>\<open>cleanup_p1433_duplicates(repo, item, claims)\<close>; \<open>Inr None\<close> is \<^verbatim>\<open>return None\<close>.\<close>

definition cleanup_p1433_duplicates :: "qid \<Rightarrow> claim list \<Rightarrow> world \<Rightarrow> (error + claim option) \<times> world" where
  "cleanup_p1433_duplicates it claims w =
     (let unique = unique_targets claims in
      if length unique > 1 then
        (case print_targets claims (emit (Print msg_distinct) w) of
           (Inl e, w1) \<Rightarrow> (Inl e, w1)
         | (Inr _, w1) \<Rightarrow>
             (case read_input ask_open w1 of
                (Inl e, w2) \<Rightarrow> (Inl e, w2)
              | (Inr line, w2) \<Rightarrow>
                  (Inr None, if lower line = ''y'' then emit (OpenBrowser it) w2 else w2)))
      else
        (case unique of
           [] \<Rightarrow> (Inl IndexError, w)
         | target_qid # _ \<Rightarrow>
             let with_qual = filter has_qualifiers claims;
                 no_qual = filter (\<lambda>c. \<not> has_qualifiers c) claims in
             (case (if length claims > 1 \<and> no_qual \<noteq> []
                    then dedup_dialogue it target_qid no_qual w else (Inr (), w)) of
                (Inl e, w1) \<Rightarrow> (Inl e, w1)
              | (Inr _, w1) \<Rightarrow>
                  if list_ex (\<lambda>c. ctarget c = None) claims then (Inl AttributeError, w1)
                  else (case filter (\<lambda>c. ctarget c = Some target_qid) claims of
                          [] \<Rightarrow> (Inl IndexError, w1)
                        | c # _ \<Rightarrow> (Inr (Some c), w1)))))"

definition truthy :: "string option \<Rightarrow> bool" where
  "truthy v = (v \<noteq> None \<and> v \<noteq> Some [])"

text \<open>
  The block for the previous part and the block for the next part: the sibling's full
  title, its item, and the qualifier on the journal claim.
\<close>

definition attach_sibling ::
  "site \<Rightarrow> qid \<Rightarrow> string list \<Rightarrow> string \<Rightarrow> (string \<Rightarrow> string) \<Rightarrow> string option \<Rightarrow> claim option \<Rightarrow> world
     \<Rightarrow> claim option \<times> world" where
  "attach_sibling s it parts prop not_found sib_title journal_claim w =
     (if truthy sib_title then
        let sib_full = join_title (butlast parts @ [strip (case sib_title of Some t \<Rightarrow> t | None \<Rightarrow> [])]) in
        (case get_item_for_page s sib_full of
           Some sib_item \<Rightarrow> add_statement_with_qualifier it prop (Some sib_item) journal_claim w
         | None \<Rightarrow> (journal_claim, emit (Print (not_found sib_full)) w))
      else (journal_claim, w))"

text \<open>\<open>process_page(page, repo)\<close> of harvest_pap1.py.\<close>

definition process_page_harvest :: "site \<Rightarrow> page \<Rightarrow> world \<Rightarrow> (error + unit) \<times> world" where
  "process_page_harvest s pg w0 =
     (let w = emit (Print (msg_header (ptitle pg))) w0 in
      case item_of s (ptitle pg) of
        None \<Rightarrow> (Inr (), emit (Print msg_no_item) w)
      | Some it \<Rightarrow>
          let prev_title = predchozi pg; next_title = dalsi pg in
          if \<not> (truthy prev_title \<or> truthy next_title)
          then (Inr (), emit (Print msg_no_navigation) w)
          else
            let claims = get_p1433_claims w it in
            if claims = []
            then (Inr (), emit (Print msg_no_p1433) w)
            else
              (case cleanup_p1433_duplicates it claims w of
                 (Inl e, w1) \<Rightarrow> (Inl e, w1)
               | (Inr None, w1) \<Rightarrow> (Inr (), w1)
               | (Inr (Some journal_claim), w1) \<Rightarrow>
                   if has_qualifiers journal_claim
                   then (Inr (), emit (Print msg_already_qualified) w1)
                   else
                     (case ctarget journal_claim of
                        None \<Rightarrow> (Inl AttributeError, w1)
                      | Some journal_qid \<Rightarrow>
                          let w2 = emit (Print (msg_published_in journal_qid)) w1;
                              parts = split_title (ptitle pg);
                              base_title = (if length parts > 1 then join_title (butlast parts)
                                            else ptitle pg);
                              w3 = emit (Print (msg_base_title base_title)) w2 in
                          (case attach_sibling s it parts ''P155'' msg_prev_not_found
                                  prev_title (Some journal_claim) w3 of
                             (jc1, w4) \<Rightarrow>
                               (case attach_sibling s it parts ''P156''
                                       msg_next_not_found next_title jc1 w4 of
                                  (jc2, w5) \<Rightarrow> (Inr (), w5))))))"

text \<open>\<open>main\<close> of harvest_pap1.py: the flag is cleared once, then the pages are processed.\<close>

fun harvest_loop :: "site \<Rightarrow> page list \<Rightarrow> world \<Rightarrow> (error + unit) \<times> world" where
  "harvest_loop s [] w = (Inr (), w)"
| "harvest_loop s (pg # pgs) w =
     (if \<not> page_exists s (ptitle pg) \<or> redirect_of s (ptitle pg) \<noteq> None
      then harvest_loop s pgs w
      else (case process_page_harvest s pg w of
              (Inl e, w1) \<Rightarrow> (Inl e, w1)
            | (Inr _, w1) \<Rightarrow> harvest_loop s pgs w1))"

definition harvest_main :: "site \<Rightarrow> page list \<Rightarrow> world \<Rightarrow> (error + unit) \<times> world" where
  "harvest_main s pgs w = harvest_loop s pgs (w\<lparr>always_yes := False\<rparr>)"

section \<open>Notions the properties are stated with\<close>



subsection \<open>Concrete wikis, pages and stores\<close>

definition initial_world :: "string list \<Rightarrow> (qid \<Rightarrow> claim list) \<Rightarrow> world" where
  "initial_world typed store =
     \<lparr>stdin = typed, kb = store, next_snak = 100, trace = [], always_yes = False\<rparr>"

definition no_claims :: "qid \<Rightarrow> claim list" where
  "no_claims = (\<lambda>_. [])"

text \<open>A wiki without redirects: the titles that exist and the items linked to titles.\<close>

definition plain_site :: "string list \<Rightarrow> (string \<times> qid) list \<Rightarrow> site" where
  "plain_site existing items =
     \<lparr>page_exists = (\<lambda>t. t \<in> set existing), redirect_of = (\<lambda>_. None),
      item_of = map_of items, allpages = existing\<rparr>"

definition plain_page :: "string \<Rightarrow> string option \<Rightarrow> page" where
  "plain_page t tp = \<lparr>ptitle = t, titul = tp, predchozi = None, dalsi = None\<rparr>"

definition nav_page :: "string \<Rightarrow> string option \<Rightarrow> string option \<Rightarrow> page" where
  "nav_page t p n = \<lparr>ptitle = t, titul = None, predchozi = p, dalsi = n\<rparr>"

definition plain_claim :: "nat \<Rightarrow> qid \<Rightarrow> claim" where
  "plain_claim n q = \<lparr>snak = n, ctarget = Some q, qualifiers = []\<rparr>"

definition qualified_claim :: "nat \<Rightarrow> qid \<Rightarrow> string \<Rightarrow> qid \<Rightarrow> claim" where
  "qualified_claim n q prop t = \<lparr>snak = n, ctarget = Some q, qualifiers = [(prop, [Some t])]\<rparr>"

text \<open>Page \<open>A/B\<close> under \<open>A\<close>, and a top-level page \<open>X\<close>; each has an item.\<close>

definition site_ab :: site where
  "site_ab = plain_site [''A'', ''A/B'', ''X''] [(''A'', ''QA''), (''A/B'', ''QB''), (''X'', ''QX'')]"


text \<open>Page \<open>A/B/C\<close> without any ancestor page, and a page \<open>A/B/A\<close> with an item.\<close>

definition site_abc :: site where
  "site_abc = plain_site [''A/B/C'', ''A/B/A''] [(''A/B/C'', ''QP''), (''A/B/A'', ''QJ'')]"

text \<open>Two parts of a journal, each with an item carrying P1433 twice, unqualified.\<close>

definition site_journal :: site where
  "site_journal = plain_site [''J/1'', ''J/2''] [(''J/1'', ''QP1''), (''J/2'', ''QP2'')]"

definition store_journal :: "qid \<Rightarrow> claim list" where
  "store_journal = no_claims(''QP1'' := [plain_claim 1 ''QJ'', plain_claim 2 ''QJ''],
                             ''QP2'' := [plain_claim 3 ''QJ'', plain_claim 4 ''QJ''])"

section \<open>Properties\<close>

subsection \<open>Paths\<close>

lemma split_sep_nonempty: "split_sep c t \<noteq> []"
  by (induction t) (auto split: list.splits)

lemma split_sep_single: "length (split_sep c t) = 1 \<Longrightarrow> split_sep c t = [t]"
proof (induction t)
  case Nil
  then show ?case by simp
next
  case (Cons x xs)
  show ?case
  proof (cases "x = c")
    case True
    with Cons.prems show ?thesis by (simp add: split_sep_nonempty)
  next
    case False
    with Cons show ?thesis by (auto simp: split_sep_nonempty split: list.splits)
  qed
qed

subsection \<open>The walk over the ancestors\<close>






subsection \<open>The declared title\<close>

text \<open>
  C1, as amended. When the template declares TITUL, the declared title is not looked up:
  processing does not depend on its value, and the item the page's claim is compared
  with is the item of the base title that \<open>guess_base_title\<close> derives from the page's own
  path.
\<close>

theorem C1_declared_title_not_resolved:
  assumes "truthy (titul pg)"
  shows "(\<forall>tp. truthy tp \<longrightarrow> process_page s (pg\<lparr>titul := tp\<rparr>) ay w = process_page s pg ay w) \<and>
         (\<forall>it e. item_of s (ptitle pg) = Some it \<longrightarrow>
             get_item_for_page s (guess_base_title s (ptitle pg) None) = Some e \<longrightarrow>
             process_page s pg ay w = reconcile it e ay (emit (Print (msg_header (ptitle pg))) w))"
proof -
  have base: "guess_base_title s (ptitle pg) tp = guess_base_title s (ptitle pg) None" for tp
    by (simp add: guess_base_title_def)
  have indep: "process_page s (pg\<lparr>titul := tp\<rparr>) ay w = process_page s pg ay w" if "truthy tp" for tp
    using assms that
    by (auto simp: process_page_def Let_def truthy_def base[of tp] base[of "titul pg"]
        multi_level_def split: option.splits)
  have expected: "process_page s pg ay w = reconcile it e ay (emit (Print (msg_header (ptitle pg))) w)"
    if "item_of s (ptitle pg) = Some it"
      and "get_item_for_page s (guess_base_title s (ptitle pg) None) = Some e" for it e
    using assms that
    by (auto simp: process_page_def Let_def truthy_def base[of "titul pg"])
  from indep expected show ?thesis by blast
qed

theorem C1_declared_title_not_resolved_witness:
  "truthy (titul (plain_page ''A/B'' (Some ''X''))) \<and> truthy (Some ''Y'') \<and>
   process_page site_ab ((plain_page ''A/B'' (Some ''X''))\<lparr>titul := Some ''Y''\<rparr>) True
       (initial_world [] no_claims)
     = process_page site_ab (plain_page ''A/B'' (Some ''X'')) True (initial_world [] no_claims) \<and>
   item_of site_ab (ptitle (plain_page ''A/B'' (Some ''X''))) = Some ''QB'' \<and>
   get_item_for_page site_ab (guess_base_title site_ab (ptitle (plain_page ''A/B'' (Some ''X''))) None)
     = Some ''QA'' \<and>
   process_page site_ab (plain_page ''A/B'' (Some ''X'')) True (initial_world [] no_claims)
     = reconcile ''QB'' ''QA'' True
         (emit (Print (msg_header (ptitle (plain_page ''A/B'' (Some ''X''))))) (initial_world [] no_claims))"
proof -
  have h1: "truthy (titul (plain_page ''A/B'' (Some ''X'')))"
    by code_simp
  have h2: "truthy (Some ''Y'')"
    by code_simp
  have h3: "item_of site_ab (ptitle (plain_page ''A/B'' (Some ''X''))) = Some ''QB''"
    by code_simp
  have h4: "get_item_for_page site_ab
              (guess_base_title site_ab (ptitle (plain_page ''A/B'' (Some ''X''))) None) = Some ''QA''"
    by code_simp
  from C1_declared_title_not_resolved[OF h1, of site_ab True "initial_world [] no_claims"] h1 h2 h3 h4
  show ?thesis by blast
qed

text \<open>
  C1 as stated fails: on page \<open>A/B\<close> with TITUL \<open>X\<close>, the page \<open>X\<close> resolves directly to
  the item \<open>QX\<close>, and the claim that is added points to \<open>QA\<close>, the item of the parent.
\<close>

theorem C1_counterexample:
  "get_item_for_page site_ab ''X'' = Some ''QX'' \<and>
   mutations (snd (process_page site_ab (plain_page ''A/B'' (Some ''X'')) True (initial_world [] no_claims)))
     = [AddClaim ''QB'' ''QA'' sum_added]"
  by code_simp

subsection \<open>Pages without a parent\<close>

text \<open>
  A page whose path has one segment has no ancestor. Without TITUL it is skipped with
  the message that it has no parent level, with no question and no edit, and the session
  flag is returned as it was. \<open>guess_base_title\<close> returns the page's own title for it.
\<close>

lemma single_segment_without_titul_skipped:
  assumes "length (split_title (ptitle pg)) = 1"
    and "\<not> truthy (titul pg)" and "item_of s (ptitle pg) = Some it"
  shows "process_page s pg ay w =
           (Inr ay, w\<lparr>trace := trace w @
              [Print (msg_header (ptitle pg)), Print msg_no_titul, Print msg_no_parent]\<rparr>)"
proof -
  from assms(1) have sp: "split_title (ptitle pg) = [ptitle pg]"
    by (simp add: split_title_def split_sep_single)
  from assms(2,3) show ?thesis
    by (auto simp: process_page_def Let_def sp truthy_def emit_def)
qed

lemma single_segment_base_title:
  assumes "length (split_title (ptitle pg)) = 1"
  shows "guess_base_title s (ptitle pg) tp = ptitle pg"
proof -
  from assms have sp: "split_title (ptitle pg) = [ptitle pg]"
    by (simp add: split_title_def split_sep_single)
  then show ?thesis
    by (simp add: guess_base_title_def)
qed

text \<open>
  C10. The one-segment page \<open>A\<close> has the item \<open>QA\<close>. Without TITUL the page is skipped.
  With TITUL the resolver returns the page's own title, its item \<open>QA\<close> becomes the
  expected target, and the run proposes the page's own item as published-in target: it
  adds the claim \<open>QA\<close> to \<open>QA\<close> once confirmed, and with the session flag set it replaces
  an existing target \<open>QX\<close> by \<open>QA\<close> without any question.
\<close>

theorem C10_own_item_proposed:
  "(let with_titul = plain_page ''A'' (Some ''X'');
        r_add = process_page site_ab with_titul False (initial_world [''y''] no_claims);
        r_replace = process_page site_ab with_titul True
                      (initial_world [] (no_claims(''QA'' := [plain_claim 1 ''QX''])));
        r_skip = process_page site_ab (plain_page ''A'' None) False (initial_world [''y''] no_claims)
    in length (split_title ''A'') = 1 \<and>
       item_of site_ab ''A'' = Some ''QA'' \<and>
       guess_base_title site_ab ''A'' (Some ''X'') = ''A'' \<and>
       trace (snd r_add) =
         [Print ''== A =='', Print ''Chybi publikovano v - melo by byt QA'',
          Prompt ''Pridat? [y]es / [n]o / [a]ll > '',
          AddClaim ''QA'' ''QA'' ''Doplneno publikovano v (NavigacePaP)''] \<and>
       map ctarget (kb (snd r_add) ''QA'') = [Some ''QA''] \<and>
       trace (snd r_replace) =
         [Print ''== A =='', Print ''Nesoulad: aktualni QX, ocekavane QA'',
          ChangeTarget ''QA'' 1 ''QA'' ''Oprava publikovano v (NavigacePaP)''] \<and>
       map ctarget (kb (snd r_replace) ''QA'') = [Some ''QA''] \<and>
       fst r_skip = Inr False \<and>
       trace (snd r_skip) =
         [Print ''== A =='', Print ''Sablona NavigacePaP nema TITUL.'',
          Print ''Nelze odhadnout nazev - stranka nema nadrazenou uroven.''] \<and>
       kb (snd r_skip) ''QA'' = [])"
  by code_simp

subsection \<open>Qualifiers\<close>

text \<open>
  C9. When the claim already carries the item \<open>t\<close> as a qualifier of the property
  \<open>prop\<close> (P155 for the previous part, P156 for the next part, or any other), attaching
  it again changes nothing: no call to the store, no output, the claim as it was.
\<close>

theorem C9_qualifier_not_duplicated:
  "Some t \<in> set (quals_get jc prop) \<Longrightarrow>
   add_statement_with_qualifier it prop (Some t) (Some jc) w = (Some jc, w)"
  by (simp add: add_statement_with_qualifier_def list_ex_iff)

theorem C9_qualifier_not_duplicated_witness:
  "Some ''Q20'' \<in> set (quals_get (qualified_claim 1 ''QJ'' ''P155'' ''Q20'') ''P155'') \<and>
   add_statement_with_qualifier ''QP1'' ''P155'' (Some ''Q20'')
       (Some (qualified_claim 1 ''QJ'' ''P155'' ''Q20'')) (initial_world [] store_journal)
     = (Some (qualified_claim 1 ''QJ'' ''P155'' ''Q20''), initial_world [] store_journal)"
proof -
  have h: "Some ''Q20'' \<in> set (quals_get (qualified_claim 1 ''QJ'' ''P155'' ''Q20'') ''P155'')"
    by code_simp
  from C9_qualifier_not_duplicated[OF h, of "''QP1''" "initial_world [] store_journal"] h
  show ?thesis by blast
qed

subsection \<open>Claims with distinct targets\<close>






subsection \<open>The session flag of check_P1433.py\<close>

text \<open>
  In check_P1433.py every edit goes through \<open>gated\<close>. The answer \<open>a\<close> returns the flag
  set; with the flag set no confirmation is asked (the only question left is the choice
  among similar titles) and every page returns the flag set.
\<close>

lemma gated_answer_all:
  "confirm q w = (Inr ''a'', w1) \<Longrightarrow> gated False q edit w = (Inr True, edit w1)"
  by (simp add: gated_def)

lemma gated_all_yes: "gated True q edit w = (Inr True, edit w)"
  by (simp add: gated_def)

lemma estimate_loop_all_yes:
  "fst (estimate_loop s it True cands w) = Inr True \<and>
   prompts (snd (estimate_loop s it True cands w)) = prompts w"
  by (induction cands arbitrary: w)
     (auto simp: Let_def gated_all_yes emit_def add_claim_def prompts_def is_prompt_def
        split: option.splits)

lemma multi_level_all_yes:
  "multi_level s pg it base True w = (Some r, w') \<Longrightarrow>
     (r = Inr True \<or> r = Inl UnboundLocalError) \<and> prompts w' = prompts w"
  by (auto simp: multi_level_def Let_def gated_all_yes emit_def add_claim_def prompts_def
        is_prompt_def read_local_def cand_item_with_titul_def
        split: option.splits if_splits)

lemma multi_level_through:
  "multi_level s pg it base ay w = (None, w') \<Longrightarrow> prompts w' = prompts w"
  by (auto simp: multi_level_def Let_def emit_def prompts_def is_prompt_def
        split: option.splits if_splits prod.splits sum.splits)

lemma print_candidates_prompts: "prompts (print_candidates cs w) = prompts w"
  by (induction cs arbitrary: w) (auto simp: emit_def prompts_def is_prompt_def)

lemma similar_titles_all_yes:
  "similar_titles s it base True w = (r, w') \<Longrightarrow>
     (r = Inr True \<or> r = Inl EOFError) \<and>
     (prompts w' = prompts w \<or> prompts w' = prompts w @ [Prompt ask_choice])"
  using print_candidates_prompts[of "take 5 (filter (\<lambda>p. contains (lower p) (lower base) \<and> CHR ''/'' \<notin> set p) (allpages s))" "emit (Print msg_candidates) w"]
  by (auto simp: similar_titles_def Let_def gated_all_yes emit_def add_claim_def prompts_def
        is_prompt_def read_input_def
        split: option.splits if_splits list.splits)

lemma reconcile_all_yes:
  "fst (reconcile it e True w) = Inr True \<and> prompts (snd (reconcile it e True w)) = prompts w"
  by (auto simp: reconcile_def Let_def gated_all_yes emit_def add_claim_def change_target_def
        prompts_def is_prompt_def split: option.splits list.splits)

lemma prompts_emit_print: "prompts (emit (Print m) w) = prompts w"
  by (simp add: emit_def prompts_def is_prompt_def)

lemma process_page_all_yes:
  assumes "process_page s pg True w = (r, w')"
  shows "(r = Inr True \<or> r = Inl EOFError \<or> r = Inl UnboundLocalError) \<and>
     (prompts w' = prompts w \<or> prompts w' = prompts w @ [Prompt ask_choice])"
proof (cases "item_of s (ptitle pg)")
  case None
  with assms show ?thesis
    by (auto simp: process_page_def Let_def prompts_emit_print)
next
  case (Some it)
  let ?w = "emit (Print (msg_header (ptitle pg))) w"
  show ?thesis
  proof (cases "titul pg = None \<or> titul pg = Some []")
    case True
    with assms Some show ?thesis
      using estimate_loop_all_yes[of s it "ancestors_nearest_first (split_title (ptitle pg))"
          "emit (Print msg_no_titul) ?w"]
      by (auto simp: process_page_def Let_def prompts_emit_print split: if_splits)
  next
    case False
    let ?base = "guess_base_title s (ptitle pg) (titul pg)"
    show ?thesis
    proof (cases "get_item_for_page s ?base")
      case (Some e)
      with assms \<open>item_of s (ptitle pg) = Some it\<close> False show ?thesis
        using reconcile_all_yes[of it e ?w]
        by (auto simp: process_page_def Let_def prompts_emit_print)
    next
      case None
      let ?w1 = "emit (Print (msg_expected_not_found ?base)) ?w"
      obtain m w2 where ml: "multi_level s pg it ?base True ?w1 = (m, w2)"
        by (cases "multi_level s pg it ?base True ?w1")
      show ?thesis
      proof (cases m)
        case (Some r')
        with ml multi_level_all_yes[of s pg it ?base ?w1 r' w2] assms None False
          \<open>item_of s (ptitle pg) = Some it\<close>
        show ?thesis
          by (auto simp: process_page_def Let_def prompts_emit_print)
      next
        case None': None
        from ml None' have p2: "prompts w2 = prompts w"
          using multi_level_through[of s pg it ?base True ?w1 w2] by (simp add: prompts_emit_print)
        from assms None False \<open>item_of s (ptitle pg) = Some it\<close> ml None'
        have "similar_titles s it ?base True w2 = (r, w')"
          by (auto simp: process_page_def Let_def)
        from similar_titles_all_yes[OF this] p2 show ?thesis by auto
      qed
    qed
  qed
qed

lemma check_loop_all_yes:
  "check_loop s pgs True w = (r, w') \<Longrightarrow>
     (r = Inr True \<or> r = Inl EOFError \<or> r = Inl UnboundLocalError) \<and>
     set (prompts w') \<subseteq> set (prompts w) \<union> {Prompt ask_choice}"
proof (induction pgs arbitrary: w)
  case Nil
  then show ?case by auto
next
  case (Cons pg pgs)
  show ?case
  proof (cases "\<not> page_exists s (ptitle pg) \<or> redirect_of s (ptitle pg) \<noteq> None")
    case True
    with Cons show ?thesis by auto
  next
    case False
    obtain r1 w1 where pp: "process_page s pg True w = (r1, w1)"
      by (cases "process_page s pg True w")
    from process_page_all_yes[OF pp]
    have r1: "r1 = Inr True \<or> r1 = Inl EOFError \<or> r1 = Inl UnboundLocalError"
      and p1: "set (prompts w1) \<subseteq> set (prompts w) \<union> {Prompt ask_choice}"
      by auto
    show ?thesis
    proof (cases r1)
      case (Inl e)
      with Cons.prems False pp r1 p1 show ?thesis by auto
    next
      case (Inr b)
      with r1 have b: "r1 = Inr True" by auto
      with Cons.prems False pp have "check_loop s pgs True w1 = (r, w')" by auto
      from Cons.IH[OF this] p1 show ?thesis by auto
    qed
  qed
qed

subsection \<open>Where the code departs from the specification\<close>

text \<open>
  C3. Page \<open>A/B\<close> has no TITUL and its parent \<open>A\<close> has the item \<open>QA\<close>. The first run,
  confirmed with \<open>y\<close>, adds the claim; the second run on the corrected item asks again
  and, confirmed, adds a second claim with the same target.
\<close>

theorem C3_second_run_adds_again:
  "(let w1 = snd (check_main site_ab [plain_page ''A/B'' None] (initial_world [''y'', ''y''] no_claims));
        w2 = snd (check_main site_ab [plain_page ''A/B'' None] (w1\<lparr>trace := []\<rparr>))
    in map ctarget (kb w1 ''QB'') = [Some ''QA''] \<and>
       trace w2 = [Print (msg_header ''A/B''), Print msg_no_titul, Print (msg_try_estimate ''A''),
                   Print (msg_found_estimate ''A'' ''QA''),
                   Prompt (ask_add_estimate ''QA'' ''A'' @ '' [y]es / [n]o / [a]ll > ''),
                   AddClaim ''QB'' ''QA'' sum_hierarchy_estimate] \<and>
       map ctarget (kb w2 ''QB'') = [Some ''QA'', Some ''QA''])"
  by code_simp

text \<open>
  C4. An item carries P1433 twice with the same target and neither claim has a
  qualifier. Once the removal is confirmed, both claims are removed and the item is
  left with no claim for the target.
\<close>

theorem C4_all_unqualified_all_removed:
  "(let cs = [plain_claim 1 ''QJ'', plain_claim 2 ''QJ''];
        r = cleanup_p1433_duplicates ''Q1'' cs (initial_world [''y''] (no_claims(''Q1'' := cs)))
    in fst r = Inr (Some (plain_claim 1 ''QJ'')) \<and>
       mutations (snd r) = [RemoveClaim ''Q1'' 1 sum_duplicate, RemoveClaim ''Q1'' 2 sum_duplicate] \<and>
       kb (snd r) ''Q1'' = [])"
  by code_simp

text \<open>
  C6. Page \<open>A/B/C\<close> has TITUL, no ancestor has an item, and the page \<open>A/B/A\<close> made of
  the parent prefix and the base title has the item \<open>QJ\<close>. When the page's item already
  has a P1433 claim (here with that same target), the comparison reads the unbound
  local \<open>cand_item\<close> and the run raises; when it has none, the question is asked.
\<close>

theorem C6_existing_claim_raises:
  "(let r = process_page site_abc (plain_page ''A/B/C'' (Some ''X'')) False
              (initial_world [''n''] (no_claims(''QP'' := [plain_claim 1 ''QJ''])));
        r0 = process_page site_abc (plain_page ''A/B/C'' (Some ''X'')) False
              (initial_world [''n''] no_claims)
    in get_item_for_page site_abc ''A/B/A'' = Some ''QJ'' \<and>
       get_publication_item (initial_world [''n''] (no_claims(''QP'' := [plain_claim 1 ''QJ'']))) ''QP''
         = Some ''QJ'' \<and>
       fst r = Inl UnboundLocalError \<and>
       trace (snd r) = [Print (msg_header ''A/B/C''), Print (msg_expected_not_found ''A''),
                        Print (msg_try_full ''A/B/A''), Print (msg_found_full ''QJ'')] \<and>
       fst r0 = Inr False \<and>
       prompts (snd r0) = [Prompt (ask_use_full ''A/B/A'' @ '' [y]es / [n]o / [a]ll > '')])"
  by code_simp

text \<open>
  C7. An item carries P1433 twice with the same target: the first claim has no
  qualifier, the second has one. Once the removal is confirmed, the claim that is
  returned for the qualifiers is the first one: it has no qualifier, although a
  qualified claim exists, and it is no longer on the item.
\<close>

theorem C7_returned_claim_was_removed:
  "(let cu = plain_claim 1 ''QJ''; cq = qualified_claim 2 ''QJ'' ''P155'' ''Q20'';
        r = cleanup_p1433_duplicates ''Q1'' [cu, cq]
              (initial_world [''y''] (no_claims(''Q1'' := [cu, cq])))
    in fst r = Inr (Some cu) \<and> \<not> has_qualifiers cu \<and> has_qualifiers cq \<and>
       mutations (snd r) = [RemoveClaim ''Q1'' 1 sum_duplicate] \<and>
       kb (snd r) ''Q1'' = [cq])"
  by code_simp

text \<open>
  C8. In the harvest script two pages in a row have duplicate claims. The operator
  answers \<open>a\<close> on the first page, which sets the flag; on the second page the question
  is asked again before the claims are removed, and a run whose input ends after the
  \<open>a\<close> stops there at the end of input.
\<close>

theorem C8_harvest_asks_again_after_all:
  "(let pgs = [nav_page ''J/1'' (Some ''0'') None, nav_page ''J/2'' (Some ''0'') None];
        w1 = snd (harvest_main site_journal [nav_page ''J/1'' (Some ''0'') None]
                    (initial_world [''a''] store_journal));
        r = harvest_main site_journal pgs (initial_world [''a'', ''y''] store_journal);
        r' = harvest_main site_journal pgs (initial_world [''a''] store_journal)
    in always_yes w1 \<and> fst r = Inr () \<and> always_yes (snd r) \<and>
       filter (\<lambda>e. is_prompt e \<or> is_mutation e) (trace (snd r)) =
         [Prompt ask_remove, RemoveClaim ''QP1'' 1 sum_duplicate, RemoveClaim ''QP1'' 2 sum_duplicate,
          Prompt ask_remove, RemoveClaim ''QP2'' 3 sum_duplicate, RemoveClaim ''QP2'' 4 sum_duplicate] \<and>
       fst r' = Inl EOFError \<and> always_yes (snd r') \<and>
       kb (snd r') ''QP2'' = [plain_claim 3 ''QJ'', plain_claim 4 ''QJ''])"
  by code_simp

end
